theory Spec2Isabelle
  imports Main "HOL-Library.Sublist"
begin

section \<open>Python values\<close>

text \<open>
  The converter of \<^verbatim>\<open>skeliton.py\<close> handles two families of Python values: the
  scalars found in the cells of a pandas DataFrame, and the documents that \<^verbatim>\<open>json.load\<close>
  returns and that the writer node builds.

  A cell is what \<^verbatim>\<open>row.items()\<close> hands out for one column of one row. A float other
  than NaN is carried by the text \<^verbatim>\<open>str()\<close> gives for it, and so is an object of any
  other class (a Timestamp, say): the code observes nothing else of them. The label of a column
  is such a scalar too: \<^verbatim>\<open>pd.read_excel\<close> hands out a string for a header cell that holds
  text, and an integer, a float, a boolean or a date for a header cell that holds one.
  Strings are lists of 8-bit characters, the UTF-8 encoding of the Python string.
\<close>

datatype cell =
    CNone
  | CNaN
  | CNaT
  | CStr string
  | CInt int
  | CFloat string
  | CBool bool
  | COther string

text \<open>
  A JSON document as Python holds it. \<open>JNone\<close> is Python's \<^verbatim>\<open>None\<close>, a dict is the list
  of its items in insertion order (its keys are distinct in every dict Python builds), and a
  float is carried by its \<^verbatim>\<open>str()\<close> text.
\<close>

datatype json =
    JNone
  | JBool bool
  | JInt int
  | JFloat string
  | JStr string
  | JList "json list"
  | JDict "(string \<times> json) list"

datatype py_error = TypeError | AttributeError | KeyError

subsection \<open>Classes and \<^verbatim>\<open>isinstance\<close>\<close>

datatype py_class = NoneType | NaTType | Cstr | Cint | Cfloat | Cbool | Cobject

fun class_of :: "cell \<Rightarrow> py_class" where
  "class_of CNone = NoneType"
| "class_of CNaN = Cfloat"
| "class_of CNaT = NaTType"
| "class_of (CStr s) = Cstr"
| "class_of (CInt i) = Cint"
| "class_of (CFloat s) = Cfloat"
| "class_of (CBool b) = Cbool"
| "class_of (COther s) = Cobject"

text \<open>In Python \<^verbatim>\<open>bool\<close> is a subclass of \<^verbatim>\<open>int\<close>; the other classes here are unrelated.\<close>

definition issubclass :: "py_class \<Rightarrow> py_class \<Rightarrow> bool" where
  "issubclass c d = (c = d \<or> (c = Cbool \<and> d = Cint))"

definition isinstance :: "cell \<Rightarrow> py_class list \<Rightarrow> bool" where
  "isinstance v cs = list_ex (issubclass (class_of v)) cs"

text \<open>\<^verbatim>\<open>pd.isna\<close> and \<^verbatim>\<open>pd.notna\<close> on a scalar.\<close>

fun isna :: "cell \<Rightarrow> bool" where
  "isna CNone = True"
| "isna CNaN = True"
| "isna CNaT = True"
| "isna v = False"

definition notna :: "cell \<Rightarrow> bool" where
  "notna v = (\<not> isna v)"

subsection \<open>Strings\<close>

text \<open>
  What the program takes from Python without defining it: the text of a list or of a dict,
  and \<^verbatim>\<open>str.upper\<close> and \<^verbatim>\<open>str.lower\<close> on a string with a character beyond ASCII,
  where the case mapping is Unicode's and can change the length of the string. The functions
  below take them as the parameter \<open>py\<close>.
\<close>

record python =
  py_repr :: "json \<Rightarrow> string"
  py_upper :: "string \<Rightarrow> string"
  py_lower :: "string \<Rightarrow> string"

text \<open>
  \<^verbatim>\<open>str.isascii\<close>: in UTF-8 the ASCII characters are the bytes whose highest bit is not
  set. On such a string \<^verbatim>\<open>str.upper\<close> and \<^verbatim>\<open>str.lower\<close> map the 26 letters and
  leave every other character as it is.
\<close>

definition isascii :: "string \<Rightarrow> bool" where
  "isascii s = list_all (\<lambda>c. \<not> digit7 c) s"

definition upper_char :: "char \<Rightarrow> char" where
  "upper_char c =
     (case map_of (zip ''abcdefghijklmnopqrstuvwxyz'' ''ABCDEFGHIJKLMNOPQRSTUVWXYZ'') c of
        None \<Rightarrow> c | Some u \<Rightarrow> u)"

definition lower_char :: "char \<Rightarrow> char" where
  "lower_char c =
     (case map_of (zip ''ABCDEFGHIJKLMNOPQRSTUVWXYZ'' ''abcdefghijklmnopqrstuvwxyz'') c of
        None \<Rightarrow> c | Some l \<Rightarrow> l)"

definition upper :: "python \<Rightarrow> string \<Rightarrow> string" where
  "upper py s = (if isascii s then map upper_char s else py_upper py s)"

definition lower :: "python \<Rightarrow> string \<Rightarrow> string" where
  "lower py s = (if isascii s then map lower_char s else py_lower py s)"

text \<open>\<^verbatim>\<open>s.replace(' ', '_')\<close>: both arguments are one character long.\<close>

definition replace :: "char \<Rightarrow> char \<Rightarrow> string \<Rightarrow> string" where
  "replace old new s = map (\<lambda>c. if c = old then new else c) s"

text \<open>\<^verbatim>\<open>sep.join(xs)\<close>.\<close>

fun join :: "string \<Rightarrow> string list \<Rightarrow> string" where
  "join sep [] = []"
| "join sep [x] = x"
| "join sep (x # y # ys) = x @ sep @ join sep (y # ys)"

text \<open>\<^verbatim>\<open>sub in s\<close> for two strings: \<open>sub\<close> starts at some position of \<open>s\<close>.\<close>

fun contains :: "string \<Rightarrow> string \<Rightarrow> bool" where
  "contains sub [] = (sub = [])"
| "contains sub (c # cs) = (prefix sub (c # cs) \<or> contains sub cs)"

text \<open>\<^verbatim>\<open>str()\<close> of an integer: decimal digits, with a minus sign below zero.\<close>

fun digits :: "nat \<Rightarrow> string" where
  "digits n = (if n < 10 then [''0123456789'' ! n] else digits (n div 10) @ [''0123456789'' ! (n mod 10)])"

declare digits.simps [simp del]

definition str_int :: "int \<Rightarrow> string" where
  "str_int i = (if i < 0 then CHR ''-'' # digits (nat (- i)) else digits (nat i))"

fun str_cell :: "cell \<Rightarrow> string" where
  "str_cell CNone = ''None''"
| "str_cell CNaN = ''nan''"
| "str_cell CNaT = ''NaT''"
| "str_cell (CStr s) = s"
| "str_cell (CInt i) = str_int i"
| "str_cell (CFloat s) = s"
| "str_cell (CBool b) = (if b then ''True'' else ''False'')"
| "str_cell (COther s) = s"

text \<open>
  \<^verbatim>\<open>v.upper()\<close> and \<^verbatim>\<open>v.lower()\<close> for a scalar: only a string has the methods.
\<close>

fun call_upper :: "python \<Rightarrow> cell \<Rightarrow> py_error + string" where
  "call_upper py (CStr s) = Inr (upper py s)"
| "call_upper py v = Inl AttributeError"

fun call_lower :: "python \<Rightarrow> cell \<Rightarrow> py_error + string" where
  "call_lower py (CStr s) = Inr (lower py s)"
| "call_lower py v = Inl AttributeError"

text \<open>
  The list comprehension \<^verbatim>\<open>[col.lower() for col in columns]\<close>: the first label without
  the method ends it with the exception.
\<close>

fun lower_each :: "python \<Rightarrow> cell list \<Rightarrow> py_error + string list" where
  "lower_each py [] = Inr []"
| "lower_each py (col # cols) =
     (case call_lower py col of
        Inl e \<Rightarrow> Inl e
      | Inr l \<Rightarrow> (case lower_each py cols of Inl e \<Rightarrow> Inl e | Inr ls \<Rightarrow> Inr (l # ls)))"

text \<open>
  What an f-string puts in place of \<^verbatim>\<open>{v}\<close> for a value of a JSON document.
\<close>

fun format :: "python \<Rightarrow> json \<Rightarrow> string" where
  "format py JNone = ''None''"
| "format py (JBool b) = (if b then ''True'' else ''False'')"
| "format py (JInt i) = str_int i"
| "format py (JFloat s) = s"
| "format py (JStr s) = s"
| "format py (JList xs) = py_repr py (JList xs)"
| "format py (JDict kvs) = py_repr py (JDict kvs)"

subsection \<open>Operations on documents\<close>

text \<open>The truth value of a document in a condition.\<close>

fun truthy :: "json \<Rightarrow> bool" where
  "truthy JNone = False"
| "truthy (JBool b) = b"
| "truthy (JInt i) = (i \<noteq> 0)"
| "truthy (JFloat s) = (s \<noteq> ''0.0'' \<and> s \<noteq> ''-0.0'')"
| "truthy (JStr s) = (s \<noteq> [])"
| "truthy (JList xs) = (xs \<noteq> [])"
| "truthy (JDict kvs) = (kvs \<noteq> [])"

text \<open>\<^verbatim>\<open>key in v\<close> for a string key: only a dict, a list and a string are containers.\<close>

fun py_in :: "string \<Rightarrow> json \<Rightarrow> py_error + bool" where
  "py_in k (JDict kvs) = Inr (map_of kvs k \<noteq> None)"
| "py_in k (JList xs) = Inr (List.member xs (JStr k))"
| "py_in k (JStr s) = Inr (contains k s)"
| "py_in k v = Inl TypeError"

text \<open>\<^verbatim>\<open>v[key]\<close> for a string key.\<close>

fun getitem :: "json \<Rightarrow> string \<Rightarrow> py_error + json" where
  "getitem (JDict kvs) k = (case map_of kvs k of None \<Rightarrow> Inl KeyError | Some x \<Rightarrow> Inr x)"
| "getitem v k = Inl TypeError"

text \<open>\<^verbatim>\<open>v.get(key, default)\<close>: only a dict has the method.\<close>

fun dict_get :: "json \<Rightarrow> string \<Rightarrow> json \<Rightarrow> py_error + json" where
  "dict_get (JDict kvs) k d = Inr (case map_of kvs k of None \<Rightarrow> d | Some x \<Rightarrow> x)"
| "dict_get v k d = Inl AttributeError"

section \<open>The table and the files\<close>

text \<open>
  A DataFrame as the code reads it: the column labels and the rows, each the list of its
  cells in column order. \<^verbatim>\<open>pd.read_excel\<close> numbers the rows from 0.
\<close>

record dataframe =
  df_columns :: "cell list"
  df_values :: "cell list list"

text \<open>Every row of a DataFrame has one cell per column.\<close>

definition rectangular :: "dataframe \<Rightarrow> bool" where
  "rectangular df = list_all (\<lambda>r. length r = length (df_columns df)) (df_values df)"

text \<open>
  The files are the world outside the program. \<open>read_excel\<close> is \<^verbatim>\<open>pd.read_excel\<close>
  (\<open>None\<close> when it raises), \<open>json_load\<close> is \<^verbatim>\<open>open\<close> followed by \<^verbatim>\<open>json.load\<close>.
\<close>

datatype 'a outcome = Raises_FileNotFoundError | Raises_Exception | Returns 'a

record files =
  read_excel :: "string \<Rightarrow> dataframe option"
  json_load :: "string \<Rightarrow> json outcome"

section \<open>InputNode\<close>

text \<open>
  The fields of the object and a counter of its calls of \<^verbatim>\<open>pd.read_excel\<close>, which the
  program does not hold. Console messages are not modelled.
\<close>

record input_node =
  excel_file_path :: string
  data :: "dataframe option"
  columns :: "cell list"
  rows :: "cell list list"
  excel_reads :: nat

definition InputNode :: "string \<Rightarrow> input_node" where
  "InputNode path =
     \<lparr>excel_file_path = path, data = None, columns = [], rows = [], excel_reads = 0\<rparr>"

definition InputNode_process :: "files \<Rightarrow> input_node \<Rightarrow> dataframe option \<times> input_node" where
  "InputNode_process fs self =
     (let self = self\<lparr>excel_reads := excel_reads self + 1\<rparr> in
      case read_excel fs (excel_file_path self) of
        None \<Rightarrow> (None, self)
      | Some df \<Rightarrow>
          (Some df, self\<lparr>data := Some df, columns := df_columns df, rows := df_values df\<rparr>))"

definition get_data :: "files \<Rightarrow> input_node \<Rightarrow> dataframe option \<times> input_node" where
  "get_data fs self =
     (case data self of Some df \<Rightarrow> (Some df, self) | None \<Rightarrow> InputNode_process fs self)"

definition get_columns :: "input_node \<Rightarrow> cell list" where
  "get_columns self = columns self"

definition get_row_count :: "input_node \<Rightarrow> nat" where
  "get_row_count self = length (rows self)"

section \<open>RuleForWriterNode\<close>

text \<open>The fields of the object and a counter of its calls of \<^verbatim>\<open>open\<close> on the rules file.\<close>

record rule_node =
  rules_file_path :: string
  rules :: json
  rules_reads :: nat

definition RuleForWriterNode :: "string \<Rightarrow> rule_node" where
  "RuleForWriterNode path = \<lparr>rules_file_path = path, rules = JNone, rules_reads = 0\<rparr>"

definition get_default_rules :: json where
  "get_default_rules =
     JDict [(''patterns'',
       JDict [(''text_pattern'',
         JDict [(''pi_code'', JStr ''MES_REVENGG_TESTRUN''),
                (''section_prefix'', JStr ''SECTION''),
                (''label_prefix'', JStr ''LABEL_''),
                (''code_suffix'', JStr ''_TextPara''),
                (''kind_mapping'',
                   JDict [(''text'', JStr ''TEXT''),
                          (''number'', JStr ''NUMBER''),
                          (''boolean'', JStr ''BOOLEAN'')])])])]"

definition RuleForWriterNode_process :: "files \<Rightarrow> rule_node \<Rightarrow> json \<times> rule_node" where
  "RuleForWriterNode_process fs self =
     (let self = self\<lparr>rules_reads := rules_reads self + 1\<rparr> in
      case json_load fs (rules_file_path self) of
        Returns j \<Rightarrow> (j, self\<lparr>rules := j\<rparr>)
      | Raises_FileNotFoundError \<Rightarrow> (get_default_rules, self\<lparr>rules := get_default_rules\<rparr>)
      | Raises_Exception \<Rightarrow> (JNone, self))"

definition get_rules :: "files \<Rightarrow> rule_node \<Rightarrow> json \<times> rule_node" where
  "get_rules fs self =
     (if rules self \<noteq> JNone then (rules self, self) else RuleForWriterNode_process fs self)"

definition get_rule_by_pattern :: "rule_node \<Rightarrow> string \<Rightarrow> py_error + json" where
  "get_rule_by_pattern self pattern_key =
     (if truthy (rules self) then
        (case py_in ''patterns'' (rules self) of
           Inl e \<Rightarrow> Inl e
         | Inr False \<Rightarrow> Inr (JDict [])
         | Inr True \<Rightarrow>
             (case getitem (rules self) ''patterns'' of
                Inl e \<Rightarrow> Inl e
              | Inr patterns \<Rightarrow> dict_get patterns pattern_key (JDict [])))
      else Inr (JDict []))"

section \<open>JsonWriterNode\<close>

definition analyze_data_pattern :: "python \<Rightarrow> dataframe \<Rightarrow> py_error + string" where
  "analyze_data_pattern py df =
     (case lower_each py (df_columns df) of
        Inl e \<Rightarrow> Inl e
      | Inr lowered \<Rightarrow>
          (let column_str = join '' '' lowered in
           if contains ''text'' column_str \<or> contains ''name'' column_str then Inr ''text_pattern''
           else if contains ''section'' column_str then Inr ''section_pattern''
           else Inr ''text_pattern''))"

definition determine_data_type :: "cell \<Rightarrow> string" where
  "determine_data_type v =
     (if isna v then ''TEXT''
      else if isinstance v [Cstr] then ''TEXT''
      else if isinstance v [Cint, Cfloat] then ''NUMBER''
      else if isinstance v [Cbool] then ''BOOLEAN''
      else ''TEXT'')"

text \<open>
  The RowItem built in the inner loop of \<^verbatim>\<open>process_sections\<close> for a column named
  \<open>name\<close> and a cell.
\<close>

definition row_item_of :: "python \<Rightarrow> string \<Rightarrow> string \<Rightarrow> string \<Rightarrow> cell \<Rightarrow> json" where
  "row_item_of py label_prefix code_suffix name cell_value =
     JDict [(''label'', JStr (label_prefix @ upper py name)),
            (''kind'', JStr (determine_data_type cell_value)),
            (''code'', JStr (name @ code_suffix)),
            (''html_overrides'',
               JDict [(''value'',
                 JStr (''[GENAI_REVENGG_'' @
                       replace (CHR '' '') (CHR ''_'') (upper py (str_cell cell_value)) @ '']''))])]"

text \<open>
  The body of the inner loop for one cell that is not null: \<^verbatim>\<open>col_name.upper()\<close> is the
  first thing evaluated and raises for a label that is no string.
\<close>

definition row_item :: "python \<Rightarrow> string \<Rightarrow> string \<Rightarrow> cell \<Rightarrow> cell \<Rightarrow> py_error + json" where
  "row_item py label_prefix code_suffix col_name cell_value =
     (case call_upper py col_name of
        Inl e \<Rightarrow> Inl e
      | Inr u \<Rightarrow> Inr (row_item_of py label_prefix code_suffix (str_cell col_name) cell_value))"

text \<open>
  The inner loop, over the items of one row: \<open>acc\<close> is \<^verbatim>\<open>section["rows"]\<close>, to which
  the RowItem of each cell that is not null is appended.
\<close>

fun row_loop ::
  "python \<Rightarrow> string \<Rightarrow> string \<Rightarrow> (cell \<times> cell) list \<Rightarrow> json list \<Rightarrow> py_error + json list"
where
  "row_loop py label_prefix code_suffix [] acc = Inr acc"
| "row_loop py label_prefix code_suffix ((col_name, cell_value) # items) acc =
     (if notna cell_value then
        (case row_item py label_prefix code_suffix col_name cell_value of
           Inl e \<Rightarrow> Inl e
         | Inr item \<Rightarrow> row_loop py label_prefix code_suffix items (acc @ [item]))
      else row_loop py label_prefix code_suffix items acc)"

text \<open>
  The outer loop, over \<^verbatim>\<open>data.iterrows()\<close>: \<open>index\<close> is the number of the row at the
  head of the list and \<open>sections\<close> the list built so far.
\<close>

fun iterrows_loop ::
  "python \<Rightarrow> string \<Rightarrow> string \<Rightarrow> string \<Rightarrow> cell list \<Rightarrow> nat \<Rightarrow> cell list list \<Rightarrow> json list \<Rightarrow>
   py_error + json list"
where
  "iterrows_loop py section_prefix label_prefix code_suffix cols index [] sections = Inr sections"
| "iterrows_loop py section_prefix label_prefix code_suffix cols index (row # rest) sections =
     (case row_loop py label_prefix code_suffix (zip cols row) [] of
        Inl e \<Rightarrow> Inl e
      | Inr items \<Rightarrow>
          iterrows_loop py section_prefix label_prefix code_suffix cols (index + 1) rest
            (sections @
              [JDict [(''title'', JStr (section_prefix @ '' '' @ str_int (int index + 1))),
                      (''rows'', JList items)]]))"

definition process_sections ::
  "python \<Rightarrow> dataframe \<Rightarrow> json \<Rightarrow> py_error + json list"
where
  "process_sections py df pattern_rules =
     (case dict_get pattern_rules ''section_prefix'' (JStr ''SECTION'') of
        Inl e \<Rightarrow> Inl e
      | Inr section_prefix \<Rightarrow>
     (case dict_get pattern_rules ''label_prefix'' (JStr ''LABEL_'') of
        Inl e \<Rightarrow> Inl e
      | Inr label_prefix \<Rightarrow>
     (case dict_get pattern_rules ''code_suffix'' (JStr ''_Code'') of
        Inl e \<Rightarrow> Inl e
      | Inr code_suffix \<Rightarrow>
          iterrows_loop py (format py section_prefix) (format py label_prefix)
            (format py code_suffix) (df_columns df) 0 (df_values df) [])))"

text \<open>
  The writer node holds the two nodes it reads from and its output, \<open>JNone\<close> until a
  document is built. A call gives its result, or the exception it raises, and the node after it.
\<close>

record json_writer_node =
  input_node :: input_node
  rule_node :: rule_node
  output_json :: json

definition JsonWriterNode :: "input_node \<Rightarrow> rule_node \<Rightarrow> json_writer_node" where
  "JsonWriterNode inp rul = \<lparr>input_node = inp, rule_node = rul, output_json = JNone\<rparr>"

definition JsonWriterNode_process ::
  "python \<Rightarrow> files \<Rightarrow> json_writer_node \<Rightarrow> (py_error + json) \<times> json_writer_node"
where
  "JsonWriterNode_process py fs self =
     (let (table, inp) = get_data fs (input_node self);
          self = self\<lparr>input_node := inp\<rparr>
      in case table of
        None \<Rightarrow> (Inr JNone, self)
      | Some df \<Rightarrow>
          (let (ruleset, rul) = get_rules fs (rule_node self);
               self = self\<lparr>rule_node := rul\<rparr>
           in if ruleset = JNone then (Inr JNone, self)
              else
                (case analyze_data_pattern py df of
                   Inl e \<Rightarrow> (Inl e, self)
                 | Inr pattern \<Rightarrow>
                (case get_rule_by_pattern (rule_node self) pattern of
                   Inl e \<Rightarrow> (Inl e, self)
                 | Inr pattern_rules \<Rightarrow>
                     (case dict_get pattern_rules ''pi_code'' (JStr ''DEFAULT_CODE'') of
                        Inl e \<Rightarrow> (Inl e, self)
                      | Inr pi_code \<Rightarrow>
                          (case process_sections py df pattern_rules of
                             Inl e \<Rightarrow> (Inl e, self)
                           | Inr sections \<Rightarrow>
                               (let out = JDict [(''pi_code'', pi_code),
                                                 (''sections'', JList sections)]
                                in (Inr out, self\<lparr>output_json := out\<rparr>))))))))"

definition get_output ::
  "python \<Rightarrow> files \<Rightarrow> json_writer_node \<Rightarrow> (py_error + json) \<times> json_writer_node"
where
  "get_output py fs self =
     (if output_json self \<noteq> JNone then (Inr (output_json self), self)
      else JsonWriterNode_process py fs self)"

section \<open>Reading a document\<close>

text \<open>
  The statements below read the documents the writer node builds with the same subscripting
  the program's callers would use: the Sections of a document, the RowItems of a Section, and
  the RowItems of a whole document.
\<close>

definition section_rows :: "json \<Rightarrow> json list" where
  "section_rows sec = (case getitem sec ''rows'' of Inr (JList items) \<Rightarrow> items | _ \<Rightarrow> [])"

definition doc_sections :: "json \<Rightarrow> json list" where
  "doc_sections doc = (case getitem doc ''sections'' of Inr (JList secs) \<Rightarrow> secs | _ \<Rightarrow> [])"

definition doc_row_items :: "json \<Rightarrow> json list" where
  "doc_row_items doc = concat (map section_rows (doc_sections doc))"

text \<open>
  The text a pattern's rules give for a key, or the default: what
  \<^verbatim>\<open>rules.get(key, default)\<close> puts into an f-string.
\<close>

definition rule_text :: "python \<Rightarrow> (string \<times> json) list \<Rightarrow> string \<Rightarrow> string \<Rightarrow> string" where
  "rule_text py kvs key dflt =
     format py (case map_of kvs key of None \<Rightarrow> JStr dflt | Some x \<Rightarrow> x)"

text \<open>
  The Section the specification asks for row number \<open>i\<close> (counted from 0): the title carries
  \<open>i + 1\<close>, and there is one RowItem for each cell that is not null, in column order.
\<close>

definition section_of ::
  "python \<Rightarrow> string \<Rightarrow> string \<Rightarrow> string \<Rightarrow> cell list \<Rightarrow> nat \<Rightarrow> cell list \<Rightarrow> json"
where
  "section_of py section_prefix label_prefix code_suffix cols i row =
     JDict [(''title'', JStr (section_prefix @ '' '' @ str_int (int i + 1))),
            (''rows'', JList (map (\<lambda>(c, v). row_item_of py label_prefix code_suffix (str_cell c) v)
                               (filter (\<lambda>(c, v). notna v) (zip cols row))))]"

text \<open>
  The lower-case column names joined by single spaces, written with list functions of the
  library: each name after a space, and the first space dropped.
\<close>

definition lowercase_joined :: "python \<Rightarrow> cell list \<Rightarrow> string" where
  "lowercase_joined py cols = drop 1 (concat (map (\<lambda>c. CHR '' '' # lower py (str_cell c)) cols))"

text \<open>
  The tables in which every cell that is not null stands under a label that is a string: all
  the tables whose column labels are strings are among them.
\<close>

definition string_labelled :: "dataframe \<Rightarrow> bool" where
  "string_labelled df =
     list_all (\<lambda>row. list_all (\<lambda>(c, v). isna v \<or> isinstance c [Cstr]) (zip (df_columns df) row))
       (df_values df)"

text \<open>
  The states of a writer node and its two nodes that the program can reach: from their
  construction, by calls of \<^verbatim>\<open>process\<close> and of the getters, whatever the files hold
  at each call.
\<close>

inductive reachable :: "json_writer_node \<Rightarrow> bool" where
  new: "reachable (JsonWriterNode (InputNode excel_path) (RuleForWriterNode rules_path))"
| process: "reachable self \<Longrightarrow> reachable (snd (JsonWriterNode_process py fs self))"
| get_output: "reachable self \<Longrightarrow> reachable (snd (get_output py fs self))"
| get_data: "reachable self \<Longrightarrow>
     reachable (self\<lparr>input_node := snd (get_data fs (input_node self))\<rparr>)"
| get_rules: "reachable self \<Longrightarrow>
     reachable (self\<lparr>rule_node := snd (get_rules fs (rule_node self))\<rparr>)"

text \<open>Every RowItem of a document has the kind TEXT or NUMBER.\<close>

definition kinds_ok :: "json \<Rightarrow> bool" where
  "kinds_ok doc = (\<forall>item \<in> set (doc_row_items doc).
         getitem item ''kind'' \<in> {Inr (JStr ''TEXT''), Inr (JStr ''NUMBER'')} \<and>
         getitem item ''kind'' \<noteq> Inr (JStr ''BOOLEAN''))"

section \<open>Example tables and files\<close>

text \<open>
  A table as \<^verbatim>\<open>iterrows\<close> hands it out: in the second row three of the five cells are
  null.
\<close>

definition people_table :: dataframe where
  "people_table =
     \<lparr>df_columns = [CStr ''Name'', CStr ''Age'', CStr ''Active'', CStr ''City'', CStr ''Joined''],
      df_values = [[CStr ''john doe'', CInt 42, CBool True, CStr ''New York'', COther ''2020-01-31 00:00:00''],
                   [CStr ''hello'', CInt 7, CNaN, CNaN, CNaT]]\<rparr>"

definition names_table :: dataframe where
  "names_table = \<lparr>df_columns = [CStr ''Name''], df_values = [[CStr ''john doe'']]\<rparr>"

definition names_document :: json where
  "names_document =
     JDict [(''pi_code'', JStr ''MES_REVENGG_TESTRUN''),
            (''sections'', JList [
               JDict [(''title'', JStr ''SECTION 1''),
                      (''rows'', JList [
                         JDict [(''label'', JStr ''LABEL_NAME''),
                                (''kind'', JStr ''TEXT''),
                                (''code'', JStr ''Name_TextPara''),
                                (''html_overrides'',
                                   JDict [(''value'', JStr ''[GENAI_REVENGG_JOHN_DOE]'')])]])]])]"

definition chapters_table :: dataframe where
  "chapters_table =
     \<lparr>df_columns = [CStr ''Section'', CStr ''Pages''], df_values = [[CStr ''intro'', CInt 12]]\<rparr>"

text \<open>A table whose header row holds the years 2020 and 2021 beside the text Name.\<close>

definition years_table :: dataframe where
  "years_table =
     \<lparr>df_columns = [CStr ''Name'', CInt 2020, CInt 2021],
      df_values = [[CStr ''john doe'', CInt 5, CInt 8]]\<rparr>"

definition custom_rules :: json where
  "custom_rules =
     JDict [(''version'', JInt 2),
            (''patterns'',
               JDict [(''text_pattern'',
                         JDict [(''pi_code'', JStr ''CUSTOM''), (''section_prefix'', JStr ''PART'')])])]"

text \<open>
  A directory with four spreadsheets, a rules file, a rules file holding \<^verbatim>\<open>null\<close>
  and one that is not JSON; any other name is absent. In \<open>no_files\<close> nothing can be read.
\<close>

definition example_files :: files where
  "example_files =
     \<lparr>read_excel = (\<lambda>path.
        if path = ''people.xlsx'' then Some people_table
        else if path = ''names.xlsx'' then Some names_table
        else if path = ''chapters.xlsx'' then Some chapters_table
        else if path = ''years.xlsx'' then Some years_table
        else None),
      json_load = (\<lambda>path.
        if path = ''custom_rules.json'' then Returns custom_rules
        else if path = ''null.json'' then Returns JNone
        else if path = ''broken.json'' then Raises_Exception
        else Raises_FileNotFoundError)\<rparr>"

definition no_files :: files where
  "no_files = \<lparr>read_excel = (\<lambda>path. None), json_load = (\<lambda>path. Raises_Exception)\<rparr>"

text \<open>Some values for what the program takes from Python.\<close>

definition example_python :: python where
  "example_python =
     \<lparr>py_repr = (\<lambda>v. ''[]''), py_upper = (\<lambda>s. s), py_lower = (\<lambda>s. s)\<rparr>"

section \<open>Auxiliary facts\<close>

lemmas eval_defs =
  JsonWriterNode_process_def JsonWriterNode_def InputNode_def RuleForWriterNode_def
  get_data_def get_rules_def get_output_def InputNode_process_def RuleForWriterNode_process_def
  get_default_rules_def analyze_data_pattern_def lower_def lower_char_def get_rule_by_pattern_def
  process_sections_def row_item_def row_item_of_def upper_def upper_char_def isascii_def
  replace_def notna_def str_int_def digits.simps determine_data_type_def isinstance_def
  issubclass_def section_rows_def doc_sections_def doc_row_items_def rectangular_def
  section_of_def rule_text_def lowercase_joined_def string_labelled_def
  people_table_def names_table_def names_document_def chapters_table_def years_table_def
  custom_rules_def example_files_def no_files_def example_python_def Let_def

lemma contains_sublist: "contains sub s \<longleftrightarrow> sublist sub s"
  by (induction s) (auto simp: sublist_Cons_right)

lemma join_space: "join '' '' xs = drop 1 (concat (map (\<lambda>x. CHR '' '' # x) xs))"
  by (induction "'' ''" xs rule: join.induct) simp_all

lemma isinstance_str: "isinstance c [Cstr] \<longleftrightarrow> (\<exists>s. c = CStr s)"
  by (cases c) (simp_all add: isinstance_def issubclass_def)

lemma lower_each_strings:
  "list_all (\<lambda>c. isinstance c [Cstr]) cols \<Longrightarrow>
   lower_each py cols = Inr (map (\<lambda>c. lower py (str_cell c)) cols)"
  by (induction cols) (auto simp: isinstance_str)

lemma lower_each_other:
  "\<not> list_all (\<lambda>c. isinstance c [Cstr]) cols \<Longrightarrow> lower_each py cols = Inl AttributeError"
proof (induction cols)
  case Nil
  then show ?case by simp
next
  case (Cons c cols)
  show ?case
  proof (cases "isinstance c [Cstr]")
    case True
    with Cons show ?thesis
      by (auto simp: isinstance_str)
  next
    case False
    then show ?thesis
      by (cases c) (simp_all add: isinstance_str)
  qed
qed

lemma determine_data_type_cases:
  "determine_data_type v =
     (case v of CInt i \<Rightarrow> ''NUMBER'' | CFloat s \<Rightarrow> ''NUMBER'' | CBool b \<Rightarrow> ''NUMBER''
              | _ \<Rightarrow> ''TEXT'')"
  by (cases v) (simp_all add: determine_data_type_def isinstance_def issubclass_def)

lemma row_item_string:
  "isinstance c [Cstr] \<Longrightarrow> row_item py lp cs c v = Inr (row_item_of py lp cs (str_cell c) v)"
  by (auto simp: isinstance_str row_item_def)

lemma row_item_other:
  "\<not> isinstance c [Cstr] \<Longrightarrow> row_item py lp cs c v = Inl AttributeError"
  by (cases c) (simp_all add: isinstance_str row_item_def)

lemma row_loop_strings:
  "list_all (\<lambda>(c, v). isna v \<or> isinstance c [Cstr]) items \<Longrightarrow>
   row_loop py lp cs items acc =
     Inr (acc @ map (\<lambda>(c, v). row_item_of py lp cs (str_cell c) v)
                  (filter (\<lambda>(c, v). notna v) items))"
  by (induction items arbitrary: acc) (auto simp: row_item_string notna_def)

lemma row_loop_other:
  "\<not> list_all (\<lambda>(c, v). isna v \<or> isinstance c [Cstr]) items \<Longrightarrow>
   row_loop py lp cs items acc = Inl AttributeError"
proof (induction items arbitrary: acc)
  case Nil
  then show ?case by simp
next
  case (Cons item items)
  obtain c v where item: "item = (c, v)"
    by (cases item)
  show ?case
  proof (cases "isna v \<or> isinstance c [Cstr]")
    case True
    with Cons item show ?thesis
      by (auto simp: notna_def row_item_string)
  next
    case False
    with item show ?thesis
      by (simp add: notna_def row_item_other)
  qed
qed

lemma iterrows_loop_strings:
  "list_all (\<lambda>row. list_all (\<lambda>(c, v). isna v \<or> isinstance c [Cstr]) (zip cols row)) rws \<Longrightarrow>
   iterrows_loop py sp lp cs cols i rws acc =
     Inr (acc @ map (\<lambda>(k, row). section_of py sp lp cs cols k row) (List.enumerate i rws))"
  by (induction rws arbitrary: i acc) (auto simp: row_loop_strings section_of_def)

lemma iterrows_loop_other:
  "\<not> list_all (\<lambda>row. list_all (\<lambda>(c, v). isna v \<or> isinstance c [Cstr]) (zip cols row)) rws \<Longrightarrow>
   iterrows_loop py sp lp cs cols i rws acc = Inl AttributeError"
proof (induction rws arbitrary: i acc)
  case Nil
  then show ?case by simp
next
  case (Cons row rws)
  show ?case
  proof (cases "list_all (\<lambda>(c, v). isna v \<or> isinstance c [Cstr]) (zip cols row)")
    case True
    with Cons show ?thesis
      by (simp add: row_loop_strings)
  next
    case False
    then show ?thesis
      by (simp add: row_loop_other)
  qed
qed

lemma process_sections_dict:
  "string_labelled df \<Longrightarrow>
   process_sections py df (JDict kvs) =
     Inr (map (\<lambda>(k, row). section_of py (rule_text py kvs ''section_prefix'' ''SECTION'')
                 (rule_text py kvs ''label_prefix'' ''LABEL_'')
                 (rule_text py kvs ''code_suffix'' ''_Code'') (df_columns df) k row)
            (List.enumerate 0 (df_values df)))"
  by (simp add: process_sections_def iterrows_loop_strings rule_text_def string_labelled_def)

lemma strings_string_labelled:
  assumes "list_all (\<lambda>c. isinstance c [Cstr]) (df_columns df)"
  shows "string_labelled df"
proof -
  have "list_all (\<lambda>(c, v). isna v \<or> isinstance c [Cstr]) (zip (df_columns df) row)" for row
    using assms by (auto simp: list_all_iff dest: set_zip_leftD)
  then show ?thesis
    by (simp add: string_labelled_def list_all_iff)
qed

lemma process_sections_other:
  "\<not> string_labelled df \<Longrightarrow> process_sections py df (JDict kvs) = Inl AttributeError"
  by (simp add: process_sections_def iterrows_loop_other string_labelled_def)

lemma process_sections_Inr:
  assumes "process_sections py df (JDict kvs) = Inr secs"
  shows "string_labelled df"
  using assms process_sections_other [of df py kvs] by auto

lemma row_item_kind:
  "getitem (row_item_of py lp cs name v) ''kind'' = Inr (JStr (determine_data_type v))"
  by (simp add: row_item_of_def)

lemma section_rows_section_of:
  "section_rows (section_of py sp lp cs cols i row) =
     map (\<lambda>(c, v). row_item_of py lp cs (str_cell c) v) (filter (\<lambda>(c, v). notna v) (zip cols row))"
  by (simp add: section_rows_def section_of_def)

lemma filter_notna_zip:
  "length cols = length row \<Longrightarrow>
   length (filter (\<lambda>(c, v). notna v) (zip cols row)) = length (filter notna row)"
  by (induction cols row rule: list_induct2) auto

lemma get_data_result:
  assumes "get_data fs n = (r, n')"
  shows "data n' = r" and "excel_reads n' \<le> excel_reads n + 1"
  using assms
  by (auto simp: get_data_def InputNode_process_def Let_def split: option.splits)

lemma get_rules_result:
  assumes "get_rules fs n = (j, n')" and "j \<noteq> JNone"
  shows "rules n' = j" and "rules_reads n' \<le> rules_reads n + 1"
  using assms
  by (auto simp: get_rules_def RuleForWriterNode_process_def Let_def
           split: if_splits outcome.splits)

text \<open>
  The ways a call of \<^verbatim>\<open>JsonWriterNode.process\<close> can end without raising: without a
  table, without rules, or with a document built from the table and the pattern's rules.
\<close>

lemma process_cases:
  assumes "JsonWriterNode_process py fs self = (Inr doc, self')"
  obtains
    (no_table) inp where "get_data fs (input_node self) = (None, inp)"
      and "doc = JNone" and "self' = self\<lparr>input_node := inp\<rparr>"
  | (no_rules) df inp rul where "get_data fs (input_node self) = (Some df, inp)"
      and "get_rules fs (rule_node self) = (JNone, rul)"
      and "doc = JNone" and "self' = self\<lparr>input_node := inp, rule_node := rul\<rparr>"
  | (document) df inp ruleset rul pattern kvs secs where
      "get_data fs (input_node self) = (Some df, inp)"
      and "get_rules fs (rule_node self) = (ruleset, rul)" and "ruleset \<noteq> JNone"
      and "analyze_data_pattern py df = Inr pattern"
      and "get_rule_by_pattern rul pattern = Inr (JDict kvs)"
      and "process_sections py df (JDict kvs) = Inr secs"
      and "doc = JDict [(''pi_code'', case map_of kvs ''pi_code'' of None \<Rightarrow> JStr ''DEFAULT_CODE'' | Some x \<Rightarrow> x),
                        (''sections'', JList secs)]"
      and "self' = self\<lparr>input_node := inp, rule_node := rul, output_json := doc\<rparr>"
proof -
  obtain table inp where g: "get_data fs (input_node self) = (table, inp)"
    by (cases "get_data fs (input_node self)")
  show thesis
  proof (cases table)
    case None
    with assms g no_table show thesis
      by (auto simp: JsonWriterNode_process_def)
  next
    case (Some df)
    obtain ruleset rul where r: "get_rules fs (rule_node self) = (ruleset, rul)"
      by (cases "get_rules fs (rule_node self)")
    show thesis
    proof (cases "ruleset = JNone")
      case True
      with assms g Some r no_rules show thesis
        by (auto simp: JsonWriterNode_process_def)
    next
      case False
      with assms g Some r obtain pattern pr pi secs where
        pat: "analyze_data_pattern py df = Inr pattern"
        and pr: "get_rule_by_pattern rul pattern = Inr pr"
        and pi: "dict_get pr ''pi_code'' (JStr ''DEFAULT_CODE'') = Inr pi"
        and secs: "process_sections py df pr = Inr secs"
        and doc: "doc = JDict [(''pi_code'', pi), (''sections'', JList secs)]"
        and self': "self' = self\<lparr>input_node := inp, rule_node := rul, output_json := doc\<rparr>"
        by (auto simp: JsonWriterNode_process_def Let_def split: sum.splits)
      from pi obtain kvs where kvs: "pr = JDict kvs"
        by (cases pr) auto
      with pi have "pi = (case map_of kvs ''pi_code'' of None \<Rightarrow> JStr ''DEFAULT_CODE'' | Some x \<Rightarrow> x)"
        by auto
      with g Some r False pat pr secs doc self' kvs document show thesis
        by blast
    qed
  qed
qed

lemma get_data_loaded: "data n \<noteq> None \<Longrightarrow> get_data fs n = (data n, n)"
  by (auto simp: get_data_def)

lemma get_rules_loaded: "rules n \<noteq> JNone \<Longrightarrow> get_rules fs n = (rules n, n)"
  by (simp add: get_rules_def)

lemma process_state:
  assumes "JsonWriterNode_process py fs s = (res, s')"
  shows "input_node s' = snd (get_data fs (input_node s)) \<and>
     (rule_node s' = rule_node s \<or> rule_node s' = snd (get_rules fs (rule_node s))) \<and>
     (output_json s' = output_json s \<or>
      res = Inr (output_json s') \<and> output_json s' \<noteq> JNone)"
  using assms
  by (auto simp: JsonWriterNode_process_def Let_def
           split: prod.splits option.splits sum.splits if_splits)

lemma process_document_kinds:
  assumes "JsonWriterNode_process py fs self = (Inr doc, self')"
  shows "kinds_ok doc"
  unfolding kinds_ok_def
proof
  have k: "determine_data_type w \<in> {''TEXT'', ''NUMBER''}" for w
    by (cases w) (simp_all add: determine_data_type_cases)
  have nb: "determine_data_type w \<noteq> ''BOOLEAN''" for w
    by (cases w) (simp_all add: determine_data_type_cases)
  fix item assume m: "item \<in> set (doc_row_items doc)"
  from assms have "\<exists>sp lp cs cols i row. item \<in> set (section_rows (section_of py sp lp cs cols i row))"
  proof (cases rule: process_cases)
    case (no_table inp)
    with m show ?thesis by (simp add: doc_row_items_def doc_sections_def)
  next
    case (no_rules df inp rul)
    with m show ?thesis by (simp add: doc_row_items_def doc_sections_def)
  next
    case (document df inp ruleset rul pattern kvs secs)
    from process_sections_Inr [OF document(6)] have "string_labelled df" .
    with document m show ?thesis
      by (auto simp: doc_row_items_def doc_sections_def process_sections_dict, blast)
  qed
  then obtain lp cs name w where "item = row_item_of py lp cs name w"
    by (auto simp: section_rows_section_of)
  then show "getitem item ''kind'' \<in> {Inr (JStr ''TEXT''), Inr (JStr ''NUMBER'')} \<and>
       getitem item ''kind'' \<noteq> Inr (JStr ''BOOLEAN'')"
    using k [of w] nb [of w] by (auto simp: row_item_kind)
qed

lemma kinds_ok_JNone: "kinds_ok JNone"
  by (simp add: kinds_ok_def doc_row_items_def doc_sections_def)

lemma process_invariant:
  assumes "JsonWriterNode_process py fs s = (res, s')"
    and "output_json s \<noteq> JNone \<longrightarrow> data (input_node s) \<noteq> None \<and> rules (rule_node s) \<noteq> JNone"
    and "kinds_ok (output_json s)"
  shows "(output_json s' \<noteq> JNone \<longrightarrow> data (input_node s') \<noteq> None \<and> rules (rule_node s') \<noteq> JNone) \<and>
     kinds_ok (output_json s')"
proof (cases "output_json s' = output_json s")
  case True
  show ?thesis
  proof (cases "output_json s = JNone")
    case True
    with \<open>output_json s' = output_json s\<close> show ?thesis
      by (simp add: kinds_ok_JNone)
  next
    case False
    with assms(2) have d: "data (input_node s) \<noteq> None" and r: "rules (rule_node s) \<noteq> JNone"
      by simp_all
    from process_state [OF assms(1)] d r True assms(3) show ?thesis
      by (auto simp: get_data_loaded get_rules_loaded)
  qed
next
  case False
  with process_state [OF assms(1)] have res: "res = Inr (output_json s')" and "output_json s' \<noteq> JNone"
    by auto
  from assms(1) res have p: "JsonWriterNode_process py fs s = (Inr (output_json s'), s')"
    by simp
  from p have "data (input_node s') \<noteq> None \<and> rules (rule_node s') \<noteq> JNone"
  proof (cases rule: process_cases)
    case (no_table inp)
    with \<open>output_json s' \<noteq> JNone\<close> show ?thesis by simp
  next
    case (no_rules df inp rul)
    with \<open>output_json s' \<noteq> JNone\<close> show ?thesis by simp
  next
    case (document df inp ruleset rul pattern kvs secs)
    have "input_node s' = inp" and "rule_node s' = rul"
      by (subst document(8), simp)+
    with get_data_result(1) [OF document(1)] get_rules_result(1) [OF document(2,3)] document(3)
    show ?thesis by simp
  qed
  with process_document_kinds [OF p] show ?thesis
    by simp
qed

text \<open>
  In a reachable state a stored document comes with a loaded table and loaded rules, and its
  RowItems have the kinds TEXT and NUMBER only.
\<close>

lemma reachable_invariant:
  assumes "reachable s"
  shows "(output_json s \<noteq> JNone \<longrightarrow> data (input_node s) \<noteq> None \<and> rules (rule_node s) \<noteq> JNone) \<and>
     kinds_ok (output_json s)"
  using assms
proof (induction rule: reachable.induct)
  case (new excel_path rules_path)
  show ?case
    by (simp add: JsonWriterNode_def kinds_ok_JNone)
next
  case (process self py fs)
  then show ?case
    using process_invariant [of py fs self "fst (JsonWriterNode_process py fs self)"
        "snd (JsonWriterNode_process py fs self)"]
    by simp
next
  case (get_output self py fs)
  show ?case
  proof (cases "output_json self = JNone")
    case True
    with get_output.IH show ?thesis
      using process_invariant [of py fs self "fst (JsonWriterNode_process py fs self)"
        "snd (JsonWriterNode_process py fs self)"]
      by (simp add: get_output_def)
  next
    case False
    with get_output.IH show ?thesis
      by (simp add: get_output_def)
  qed
next
  case (get_data self fs)
  then show ?case
    by (auto simp: get_data_loaded)
next
  case (get_rules self fs)
  then show ?case
    by (auto simp: get_rules_loaded)
qed

section \<open>Kind inference\<close>

text \<open>
  C1. Kind inference is to classify a boolean cell as BOOLEAN, the boolean check taking
  effect before the numeric one. The code tests \<^verbatim>\<open>isinstance(value, (int, float))\<close>
  first, and a Python boolean is an integer: for the cell \<^verbatim>\<open>True\<close> the result is
  NUMBER, not BOOLEAN.
\<close>

theorem determine_data_type_True_is_NUMBER:
  "determine_data_type (CBool True) = ''NUMBER'' \<and>
   determine_data_type (CBool True) \<noteq> ''BOOLEAN''"
  by (simp add: determine_data_type_def isinstance_def issubclass_def)

text \<open>
  C10. For every cell value \<^verbatim>\<open>determine_data_type\<close> returns TEXT or NUMBER and never
  BOOLEAN; so no RowItem of a document that \<^verbatim>\<open>JsonWriterNode.process\<close> returns, or that
  \<^verbatim>\<open>get_output\<close> returns in a reachable state, has the kind BOOLEAN.
\<close>

theorem kind_is_never_BOOLEAN:
  "determine_data_type v \<in> {''TEXT'', ''NUMBER''} \<and>
   determine_data_type v \<noteq> ''BOOLEAN'' \<and>
   (JsonWriterNode_process py fs self = (Inr doc, self') \<longrightarrow>
      (\<forall>item \<in> set (doc_row_items doc).
         getitem item ''kind'' \<in> {Inr (JStr ''TEXT''), Inr (JStr ''NUMBER'')} \<and>
         getitem item ''kind'' \<noteq> Inr (JStr ''BOOLEAN''))) \<and>
   (reachable self \<and> get_output py fs self = (Inr doc, self') \<longrightarrow>
      (\<forall>item \<in> set (doc_row_items doc).
         getitem item ''kind'' \<in> {Inr (JStr ''TEXT''), Inr (JStr ''NUMBER'')} \<and>
         getitem item ''kind'' \<noteq> Inr (JStr ''BOOLEAN'')))"
proof -
  have k: "determine_data_type v \<in> {''TEXT'', ''NUMBER''}"
    by (cases v) (simp_all add: determine_data_type_cases)
  have nb: "determine_data_type v \<noteq> ''BOOLEAN''"
    by (cases v) (simp_all add: determine_data_type_cases)
  have p: "kinds_ok doc" if "JsonWriterNode_process py fs self = (Inr doc, self')"
    using that by (rule process_document_kinds)
  have g: "kinds_ok doc" if r: "reachable self" and o: "get_output py fs self = (Inr doc, self')"
  proof (cases "output_json self = JNone")
    case True
    with o have "JsonWriterNode_process py fs self = (Inr doc, self')"
      by (simp add: get_output_def)
    then show ?thesis by (rule process_document_kinds)
  next
    case False
    with o have "doc = output_json self"
      by (auto simp: get_output_def)
    with reachable_invariant [OF r] show ?thesis by simp
  qed
  from k nb p g show ?thesis
    unfolding kinds_ok_def by blast
qed

theorem kind_is_never_BOOLEAN_witness:
  "determine_data_type (CBool True) = ''NUMBER'' \<and>
   reachable (JsonWriterNode (InputNode ''people.xlsx'') (RuleForWriterNode ''rules.json'')) \<and>
   (\<exists>doc self'.
      JsonWriterNode_process example_python example_files
        (JsonWriterNode (InputNode ''people.xlsx'') (RuleForWriterNode ''rules.json'')) = (Inr doc, self') \<and>
      get_output example_python example_files
        (JsonWriterNode (InputNode ''people.xlsx'') (RuleForWriterNode ''rules.json'')) = (Inr doc, self') \<and>
      map (\<lambda>item. getitem item ''kind'') (doc_row_items doc) =
        [Inr (JStr ''TEXT''), Inr (JStr ''NUMBER''), Inr (JStr ''NUMBER''), Inr (JStr ''TEXT''),
         Inr (JStr ''TEXT''), Inr (JStr ''TEXT''), Inr (JStr ''NUMBER'')])"
  using kind_is_never_BOOLEAN [of "CBool True" example_python example_files
      "JsonWriterNode (InputNode ''people.xlsx'') (RuleForWriterNode ''rules.json'')"]
    reachable.new [of "''people.xlsx''" "''rules.json''"]
  by (simp add: eval_defs)

section \<open>Sections and RowItems\<close>

text \<open>
  C2, as the specification states it: for every table and every mapping of pattern rules
  \<^verbatim>\<open>process_sections\<close> produces one Section per row of the table. That fails for a table
  with a column label that is no string and a cell under it that is not null: for the header
  Name, 2020, 2021 the call raises \<^verbatim>\<open>AttributeError\<close> at \<^verbatim>\<open>col_name.upper()\<close> and
  produces no Section.
\<close>

theorem process_sections_raises_on_year_label:
  "rectangular years_table \<and>
   process_sections example_python years_table (JDict []) = Inl AttributeError"
  by (simp add: eval_defs)

text \<open>
  C2, amended. For every table in which each cell that is not null stands under a column
  label that is a string, so for every table whose column names are strings, and every mapping
  of pattern rules, \<^verbatim>\<open>process_sections\<close> returns one Section per row of the table, in
  row order, and the Section of a row holds one RowItem for each cell of the row that is not
  null and none for a null cell, so as many RowItems as the row has cells that are not null.
\<close>

theorem process_sections_one_section_per_row:
  assumes "string_labelled df" and "rectangular df"
  shows "\<exists>secs. process_sections py df (JDict kvs) = Inr secs \<and>
     length secs = length (df_values df) \<and>
     (\<forall>i < length (df_values df).
        secs ! i = section_of py (rule_text py kvs ''section_prefix'' ''SECTION'')
                     (rule_text py kvs ''label_prefix'' ''LABEL_'')
                     (rule_text py kvs ''code_suffix'' ''_Code'')
                     (df_columns df) i (df_values df ! i) \<and>
        length (section_rows (secs ! i)) = length (filter notna (df_values df ! i)))"
proof -
  have len: "length (df_values df ! i) = length (df_columns df)" if "i < length (df_values df)" for i
    using assms(2) that by (simp add: rectangular_def list_all_length)
  show ?thesis
    by (simp add: process_sections_dict [OF assms(1)] nth_enumerate_eq section_rows_section_of
          filter_notna_zip len)
qed

theorem process_sections_one_section_per_row_witness:
  "string_labelled people_table \<and> rectangular people_table \<and>
   (\<exists>secs. process_sections example_python people_table (JDict []) = Inr secs \<and>
      length secs = 2 \<and>
      getitem (secs ! 0) ''title'' = Inr (JStr ''SECTION 1'') \<and>
      getitem (secs ! 1) ''title'' = Inr (JStr ''SECTION 2'') \<and>
      length (section_rows (secs ! 0)) = 5 \<and>
      length (section_rows (secs ! 1)) = 2 \<and>
      map (\<lambda>item. getitem item ''label'') (section_rows (secs ! 1)) =
        [Inr (JStr ''LABEL_NAME''), Inr (JStr ''LABEL_AGE'')])"
  using process_sections_one_section_per_row [of people_table example_python "[]"]
  by (simp add: eval_defs)

section \<open>Pattern selection\<close>

text \<open>
  C3, as the specification states it: pattern selection is a total function of the column
  names. That fails for a column label that is no string: for the header Name, 2020, 2021
  \<^verbatim>\<open>analyze_data_pattern\<close> raises \<^verbatim>\<open>AttributeError\<close> at \<^verbatim>\<open>col.lower()\<close> and
  selects no pattern.
\<close>

theorem analyze_data_pattern_raises_on_year_label:
  "analyze_data_pattern example_python years_table = Inl AttributeError"
  by (simp add: eval_defs)

text \<open>
  C3, amended. For every table whose column names are all strings the pattern is a function
  of the column names alone, with a fixed order of the tests: text_pattern if the column names,
  in lower case and joined by single spaces, contain "text" or "name"; else section_pattern if
  they contain "section"; else text_pattern. For the columns Name, Section the pattern is
  text_pattern.
\<close>

theorem analyze_data_pattern_first_match:
  "(list_all (\<lambda>c. isinstance c [Cstr]) (df_columns df) \<longrightarrow>
      analyze_data_pattern py df =
        Inr (if sublist ''text'' (lowercase_joined py (df_columns df)) \<or>
                sublist ''name'' (lowercase_joined py (df_columns df))
             then ''text_pattern''
             else if sublist ''section'' (lowercase_joined py (df_columns df))
             then ''section_pattern''
             else ''text_pattern'')) \<and>
   analyze_data_pattern py \<lparr>df_columns = [CStr ''Name'', CStr ''Section''], df_values = rws\<rparr> =
     Inr ''text_pattern''"
proof -
  have "lowercase_joined py cols = join '' '' (map (\<lambda>c. lower py (str_cell c)) cols)" for cols
    by (simp add: lowercase_joined_def join_space comp_def)
  then show ?thesis
    by (simp add: analyze_data_pattern_def lower_each_strings contains_sublist
          lower_def lower_char_def isascii_def)
qed

theorem analyze_data_pattern_first_match_witness:
  "list_all (\<lambda>c. isinstance c [Cstr]) (df_columns chapters_table) \<and>
   lowercase_joined example_python (df_columns chapters_table) = ''section pages'' \<and>
   analyze_data_pattern example_python chapters_table = Inr ''section_pattern'' \<and>
   analyze_data_pattern example_python names_table = Inr ''text_pattern'' \<and>
   analyze_data_pattern example_python
     \<lparr>df_columns = [CStr ''Context''], df_values = []\<rparr> = Inr ''text_pattern'' \<and>
   analyze_data_pattern example_python
     \<lparr>df_columns = [CStr ''Id'', CStr ''Value''], df_values = []\<rparr> = Inr ''text_pattern'' \<and>
   analyze_data_pattern example_python
     \<lparr>df_columns = [CStr ''Sec'', CStr ''tion''], df_values = []\<rparr> = Inr ''text_pattern''"
  using analyze_data_pattern_first_match [of chapters_table example_python]
  by (simp add: eval_defs)

section \<open>The rules\<close>

text \<open>
  C4. When the rules file is absent, so that opening it raises \<^verbatim>\<open>FileNotFoundError\<close>,
  loading the rules returns the built-in default rules and keeps them; that is no error. The
  default rules hold one pattern key, text_pattern, with the pi_code MES_REVENGG_TESTRUN, the
  section_prefix SECTION, the label_prefix LABEL_, the code_suffix _TextPara and the kind_mapping
  of text, number and boolean.
\<close>

theorem absent_rules_file_gives_default_rules:
  assumes "json_load fs (rules_file_path self) = Raises_FileNotFoundError"
  shows "fst (RuleForWriterNode_process fs self) = get_default_rules \<and>
     rules (snd (RuleForWriterNode_process fs self)) = get_default_rules \<and>
     get_default_rules \<noteq> JNone \<and>
     (\<exists>cfg. getitem get_default_rules ''patterns'' = Inr (JDict [(''text_pattern'', cfg)]) \<and>
        get_rule_by_pattern (snd (RuleForWriterNode_process fs self)) ''text_pattern'' = Inr cfg \<and>
        getitem cfg ''pi_code'' = Inr (JStr ''MES_REVENGG_TESTRUN'') \<and>
        getitem cfg ''section_prefix'' = Inr (JStr ''SECTION'') \<and>
        getitem cfg ''label_prefix'' = Inr (JStr ''LABEL_'') \<and>
        getitem cfg ''code_suffix'' = Inr (JStr ''_TextPara'') \<and>
        getitem cfg ''kind_mapping'' =
          Inr (JDict [(''text'', JStr ''TEXT''), (''number'', JStr ''NUMBER''),
                      (''boolean'', JStr ''BOOLEAN'')]))"
  using assms
  by (simp add: RuleForWriterNode_process_def get_default_rules_def get_rule_by_pattern_def Let_def)

theorem absent_rules_file_gives_default_rules_witness:
  "json_load example_files (rules_file_path (RuleForWriterNode ''conversion_rules.json'')) =
     Raises_FileNotFoundError \<and>
   fst (RuleForWriterNode_process example_files (RuleForWriterNode ''conversion_rules.json'')) =
     get_default_rules \<and>
   fst (get_rules example_files (RuleForWriterNode ''conversion_rules.json'')) = get_default_rules"
  using absent_rules_file_gives_default_rules
    [of example_files "RuleForWriterNode ''conversion_rules.json''"]
  by (simp add: example_files_def RuleForWriterNode_def get_rules_def)

text \<open>
  C8. Looking a pattern key up never fails on the key: when the loaded rules have a patterns
  mapping, \<^verbatim>\<open>get_rule_by_pattern\<close> returns the configuration stored under the key if the
  key is present and the empty mapping if it is absent; with no rules loaded, or rules without
  a patterns entry, it returns the empty mapping as well.
\<close>

theorem get_rule_by_pattern_never_fails_on_key:
  "(rules self = JDict rs \<and> map_of rs ''patterns'' = Some (JDict ps) \<longrightarrow>
      get_rule_by_pattern self key =
        Inr (case map_of ps key of Some cfg \<Rightarrow> cfg | None \<Rightarrow> JDict [])) \<and>
   (rules self = JNone \<or> (rules self = JDict rs \<and> map_of rs ''patterns'' = None) \<longrightarrow>
      get_rule_by_pattern self key = Inr (JDict []))"
proof -
  have "rs \<noteq> []" if "map_of rs ''patterns'' = Some (JDict ps)"
    using that by auto
  then show ?thesis
    by (auto simp: get_rule_by_pattern_def split: option.splits)
qed

theorem get_rule_by_pattern_never_fails_on_key_witness:
  "(\<exists>rs ps cfg. rules (snd (get_rules example_files (RuleForWriterNode ''custom_rules.json''))) = JDict rs \<and>
      map_of rs ''patterns'' = Some (JDict ps) \<and>
      map_of ps ''text_pattern'' = Some cfg \<and> map_of ps ''section_pattern'' = None \<and>
      get_rule_by_pattern (snd (get_rules example_files (RuleForWriterNode ''custom_rules.json'')))
        ''text_pattern'' = Inr cfg \<and>
      get_rule_by_pattern (snd (get_rules example_files (RuleForWriterNode ''custom_rules.json'')))
        ''section_pattern'' = Inr (JDict [])) \<and>
   rules (RuleForWriterNode ''custom_rules.json'') = JNone \<and>
   get_rule_by_pattern (RuleForWriterNode ''custom_rules.json'') ''text_pattern'' = Inr (JDict [])"
  using get_rule_by_pattern_never_fails_on_key
    [of "snd (get_rules example_files (RuleForWriterNode ''custom_rules.json''))"
        "[(''version'', JInt 2), (''patterns'', JDict [(''text_pattern'',
            JDict [(''pi_code'', JStr ''CUSTOM''), (''section_prefix'', JStr ''PART'')])])]"
        "[(''text_pattern'', JDict [(''pi_code'', JStr ''CUSTOM''), (''section_prefix'', JStr ''PART'')])]"
        "''text_pattern''"]
    get_rule_by_pattern_never_fails_on_key
    [of "RuleForWriterNode ''custom_rules.json''" "[]" "[]" "''text_pattern''"]
  by (simp add: eval_defs)

text \<open>
  Outside the rule sets of C8, where the patterns entry is no mapping, the lookup raises.
\<close>

lemma get_rule_by_pattern_patterns_not_dict:
  "rules self = JDict [(''patterns'', JList xs)] \<Longrightarrow>
   get_rule_by_pattern self key = Inl AttributeError"
  by (simp add: get_rule_by_pattern_def)

section \<open>The transform\<close>

text \<open>
  C5. For a table with the one column Name and the one row "john doe", and the default rules
  (the rules file is absent), the transform returns the document with pi_code
  MES_REVENGG_TESTRUN and one Section, titled SECTION 1, with the one RowItem of label
  LABEL_NAME, kind TEXT, code Name_TextPara and value [GENAI_REVENGG_JOHN_DOE].
\<close>

theorem transform_name_john_doe:
  assumes "read_excel fs xlsx = Some \<lparr>df_columns = [CStr ''Name''], df_values = [[CStr ''john doe'']]\<rparr>"
    and "json_load fs json = Raises_FileNotFoundError"
  shows "fst (JsonWriterNode_process py fs (JsonWriterNode (InputNode xlsx) (RuleForWriterNode json))) =
    Inr (JDict [(''pi_code'', JStr ''MES_REVENGG_TESTRUN''),
                (''sections'', JList [
                   JDict [(''title'', JStr ''SECTION 1''),
                          (''rows'', JList [
                             JDict [(''label'', JStr ''LABEL_NAME''),
                                    (''kind'', JStr ''TEXT''),
                                    (''code'', JStr ''Name_TextPara''),
                                    (''html_overrides'',
                                       JDict [(''value'', JStr ''[GENAI_REVENGG_JOHN_DOE]'')])]])]])])"
  using assms by (simp add: eval_defs)

theorem transform_name_john_doe_witness:
  "read_excel example_files ''names.xlsx'' =
     Some \<lparr>df_columns = [CStr ''Name''], df_values = [[CStr ''john doe'']]\<rparr> \<and>
   json_load example_files ''conversion_rules.json'' = Raises_FileNotFoundError \<and>
   fst (get_output example_python example_files
          (JsonWriterNode (InputNode ''names.xlsx'') (RuleForWriterNode ''conversion_rules.json''))) =
    Inr (JDict [(''pi_code'', JStr ''MES_REVENGG_TESTRUN''),
                (''sections'', JList [
                   JDict [(''title'', JStr ''SECTION 1''),
                          (''rows'', JList [
                             JDict [(''label'', JStr ''LABEL_NAME''),
                                    (''kind'', JStr ''TEXT''),
                                    (''code'', JStr ''Name_TextPara''),
                                    (''html_overrides'',
                                       JDict [(''value'', JStr ''[GENAI_REVENGG_JOHN_DOE]'')])]])]])])"
proof -
  have t: "read_excel example_files ''names.xlsx'' =
      Some \<lparr>df_columns = [CStr ''Name''], df_values = [[CStr ''john doe'']]\<rparr>"
    by (simp add: example_files_def names_table_def)
  have r: "json_load example_files ''conversion_rules.json'' = Raises_FileNotFoundError"
    by (simp add: example_files_def)
  have "get_output example_python example_files
          (JsonWriterNode (InputNode ''names.xlsx'') (RuleForWriterNode ''conversion_rules.json'')) =
        JsonWriterNode_process example_python example_files
          (JsonWriterNode (InputNode ''names.xlsx'') (RuleForWriterNode ''conversion_rules.json''))"
    by (simp add: get_output_def JsonWriterNode_def)
  with t r transform_name_john_doe [OF t r, of example_python] show ?thesis
    by simp
qed

text \<open>
  C7. If the table or the rules are unavailable, \<^verbatim>\<open>JsonWriterNode.process\<close> returns no
  document and leaves the stored output as it was; in every reachable state that is unset, so
  nothing of a document is produced.
\<close>

theorem process_without_table_or_rules:
  assumes "fst (get_data fs (input_node self)) = None \<or>
           fst (get_rules fs (rule_node self)) = JNone"
  shows "fst (JsonWriterNode_process py fs self) = Inr JNone \<and>
     output_json (snd (JsonWriterNode_process py fs self)) = output_json self \<and>
     (reachable self \<longrightarrow> output_json (snd (JsonWriterNode_process py fs self)) = JNone)"
proof -
  obtain table inp where g: "get_data fs (input_node self) = (table, inp)"
    by (cases "get_data fs (input_node self)")
  obtain ruleset rul where r: "get_rules fs (rule_node self) = (ruleset, rul)"
    by (cases "get_rules fs (rule_node self)")
  from assms g r have none: "table = None \<or> ruleset = JNone"
    by simp
  with g r have res: "fst (JsonWriterNode_process py fs self) = Inr JNone"
    and out: "output_json (snd (JsonWriterNode_process py fs self)) = output_json self"
    by (cases table; auto simp: JsonWriterNode_process_def)+
  have "output_json self = JNone" if "reachable self"
  proof (rule ccontr)
    assume "output_json self \<noteq> JNone"
    with reachable_invariant [OF that]
    have "data (input_node self) \<noteq> None" and "rules (rule_node self) \<noteq> JNone"
      by simp_all
    with g r none show False
      by (auto simp: get_data_loaded get_rules_loaded)
  qed
  with res out show ?thesis
    by simp
qed

theorem process_without_table_or_rules_witness:
  "reachable (JsonWriterNode (InputNode ''missing.xlsx'') (RuleForWriterNode ''rules.json'')) \<and>
   fst (get_data example_files
          (input_node (JsonWriterNode (InputNode ''missing.xlsx'') (RuleForWriterNode ''rules.json'')))) = None \<and>
   JsonWriterNode_process example_python example_files
       (JsonWriterNode (InputNode ''missing.xlsx'') (RuleForWriterNode ''rules.json'')) =
     (Inr JNone,
      JsonWriterNode (InputNode ''missing.xlsx'' \<lparr>excel_reads := 1\<rparr>) (RuleForWriterNode ''rules.json'')) \<and>
   fst (get_rules example_files
          (rule_node (JsonWriterNode (InputNode ''people.xlsx'') (RuleForWriterNode ''broken.json'')))) = JNone \<and>
   fst (JsonWriterNode_process example_python example_files
       (JsonWriterNode (InputNode ''people.xlsx'') (RuleForWriterNode ''broken.json''))) = Inr JNone \<and>
   output_json (snd (JsonWriterNode_process example_python example_files
       (JsonWriterNode (InputNode ''people.xlsx'') (RuleForWriterNode ''broken.json'')))) = JNone"
  using process_without_table_or_rules
      [of example_files "JsonWriterNode (InputNode ''missing.xlsx'') (RuleForWriterNode ''rules.json'')"
          example_python]
    process_without_table_or_rules
      [of example_files "JsonWriterNode (InputNode ''people.xlsx'') (RuleForWriterNode ''broken.json'')"
          example_python]
    reachable.new [of "''missing.xlsx''" "''rules.json''"]
  by (simp add: eval_defs)

text \<open>
  C9. When the column names, which are strings, in lower case and joined contain "section" but
  neither "text" nor "name", and the patterns of the loaded rules have no section_pattern key, the pattern's
  rules are the empty mapping: the document has the pi_code DEFAULT_CODE and its Sections are
  built with the section_prefix SECTION, the label_prefix LABEL_ and the code_suffix _Code.
\<close>

theorem section_columns_without_section_pattern:
  assumes "get_data fs (input_node self) = (Some df, inp)"
    and "get_rules fs (rule_node self) = (JDict rs, rul)"
    and "map_of rs ''patterns'' = Some (JDict ps)"
    and "map_of ps ''section_pattern'' = None"
    and "list_all (\<lambda>c. isinstance c [Cstr]) (df_columns df)"
    and "sublist ''section'' (lowercase_joined py (df_columns df))"
    and "\<not> sublist ''text'' (lowercase_joined py (df_columns df))"
    and "\<not> sublist ''name'' (lowercase_joined py (df_columns df))"
  shows "analyze_data_pattern py df = Inr ''section_pattern'' \<and>
     get_rule_by_pattern rul ''section_pattern'' = Inr (JDict []) \<and>
     fst (JsonWriterNode_process py fs self) =
       Inr (JDict [(''pi_code'', JStr ''DEFAULT_CODE''),
                   (''sections'',
                      JList (map (\<lambda>(i, row). section_of py ''SECTION'' ''LABEL_'' ''_Code'' (df_columns df) i row)
                               (List.enumerate 0 (df_values df))))])"
proof -
  have "lowercase_joined py (df_columns df) =
      join '' '' (map (\<lambda>c. lower py (str_cell c)) (df_columns df))"
    by (simp add: lowercase_joined_def join_space comp_def)
  with assms(6-8) have pat: "analyze_data_pattern py df = Inr ''section_pattern''"
    by (simp add: analyze_data_pattern_def lower_each_strings [OF assms(5)] contains_sublist)
  have rul: "rules rul = JDict rs"
    using get_rules_result(1) [OF assms(2)] by simp
  have "rs \<noteq> []"
    using assms(3) by auto
  with rul assms(3,4) have cfg: "get_rule_by_pattern rul ''section_pattern'' = Inr (JDict [])"
    by (simp add: get_rule_by_pattern_def)
  have secs: "process_sections py df (JDict []) =
      Inr (map (\<lambda>(i, row). section_of py ''SECTION'' ''LABEL_'' ''_Code'' (df_columns df) i row)
             (List.enumerate 0 (df_values df)))"
    by (simp add: process_sections_dict [OF strings_string_labelled [OF assms(5)]] rule_text_def)
  from assms(1,2) pat cfg secs show ?thesis
    by (simp add: JsonWriterNode_process_def Let_def)
qed

theorem section_columns_without_section_pattern_witness:
  "fst (JsonWriterNode_process example_python example_files
         (JsonWriterNode (InputNode ''chapters.xlsx'') (RuleForWriterNode ''conversion_rules.json''))) =
     Inr (JDict [(''pi_code'', JStr ''DEFAULT_CODE''),
                 (''sections'', JList [
                    JDict [(''title'', JStr ''SECTION 1''),
                           (''rows'', JList [
                              JDict [(''label'', JStr ''LABEL_SECTION''),
                                     (''kind'', JStr ''TEXT''),
                                     (''code'', JStr ''Section_Code''),
                                     (''html_overrides'', JDict [(''value'', JStr ''[GENAI_REVENGG_INTRO]'')])],
                              JDict [(''label'', JStr ''LABEL_PAGES''),
                                     (''kind'', JStr ''NUMBER''),
                                     (''code'', JStr ''Pages_Code''),
                                     (''html_overrides'', JDict [(''value'', JStr ''[GENAI_REVENGG_12]'')])]])]])])"
proof -
  let ?self = "JsonWriterNode (InputNode ''chapters.xlsx'') (RuleForWriterNode ''conversion_rules.json'')"
  have 1: "get_data example_files (input_node ?self) =
      (Some chapters_table, snd (get_data example_files (input_node ?self)))"
    by (simp add: eval_defs)
  have 2: "get_rules example_files (rule_node ?self) =
      (JDict [(''patterns'', JDict [(''text_pattern'',
         JDict [(''pi_code'', JStr ''MES_REVENGG_TESTRUN''),
                (''section_prefix'', JStr ''SECTION''),
                (''label_prefix'', JStr ''LABEL_''),
                (''code_suffix'', JStr ''_TextPara''),
                (''kind_mapping'',
                   JDict [(''text'', JStr ''TEXT''),
                          (''number'', JStr ''NUMBER''),
                          (''boolean'', JStr ''BOOLEAN'')])])])],
       snd (get_rules example_files (rule_node ?self)))"
    by (simp add: eval_defs)
  have 3: "map_of [(''patterns'', JDict [(''text_pattern'',
         JDict [(''pi_code'', JStr ''MES_REVENGG_TESTRUN''),
                (''section_prefix'', JStr ''SECTION''),
                (''label_prefix'', JStr ''LABEL_''),
                (''code_suffix'', JStr ''_TextPara''),
                (''kind_mapping'',
                   JDict [(''text'', JStr ''TEXT''),
                          (''number'', JStr ''NUMBER''),
                          (''boolean'', JStr ''BOOLEAN'')])])])] ''patterns'' =
      Some (JDict [(''text_pattern'',
         JDict [(''pi_code'', JStr ''MES_REVENGG_TESTRUN''),
                (''section_prefix'', JStr ''SECTION''),
                (''label_prefix'', JStr ''LABEL_''),
                (''code_suffix'', JStr ''_TextPara''),
                (''kind_mapping'',
                   JDict [(''text'', JStr ''TEXT''),
                          (''number'', JStr ''NUMBER''),
                          (''boolean'', JStr ''BOOLEAN'')])])])"
    by simp
  have 4: "map_of [(''text_pattern'',
         JDict [(''pi_code'', JStr ''MES_REVENGG_TESTRUN''),
                (''section_prefix'', JStr ''SECTION''),
                (''label_prefix'', JStr ''LABEL_''),
                (''code_suffix'', JStr ''_TextPara''),
                (''kind_mapping'',
                   JDict [(''text'', JStr ''TEXT''),
                          (''number'', JStr ''NUMBER''),
                          (''boolean'', JStr ''BOOLEAN'')])])] ''section_pattern'' = None"
    by simp
  have 5: "list_all (\<lambda>c. isinstance c [Cstr]) (df_columns chapters_table)"
    by (simp add: chapters_table_def isinstance_def issubclass_def)
  have 6: "sublist ''section'' (lowercase_joined example_python (df_columns chapters_table))"
    and 7: "\<not> sublist ''text'' (lowercase_joined example_python (df_columns chapters_table))"
    and 8: "\<not> sublist ''name'' (lowercase_joined example_python (df_columns chapters_table))"
    by (simp_all add: contains_sublist [symmetric] chapters_table_def lowercase_joined_def
          lower_def lower_char_def isascii_def)
  from section_columns_without_section_pattern [OF 1 2 3 4 5 6 7 8]
  show ?thesis
    by (simp add: eval_defs)
qed

section \<open>Memoization\<close>

lemma funpow_fixed: "f x = x \<Longrightarrow> (f ^^ k) x = x"
  by (induction k) simp_all

lemma get_data_again:
  assumes "get_data fs n = (Some df, n')"
  shows "get_data fs' n' = (Some df, n')"
  using get_data_result(1) [OF assms] by (simp add: get_data_def)

lemma get_rules_again:
  assumes "get_rules fs r = (j, r')" and "j \<noteq> JNone"
  shows "get_rules fs' r' = (j, r')"
  using get_rules_result(1) [OF assms] assms(2) by (simp add: get_rules_def)

lemma process_document_stored:
  assumes "JsonWriterNode_process py fs w = (Inr doc, w')" and "doc \<noteq> JNone"
  shows "output_json w' = doc \<and>
     excel_reads (input_node w') \<le> excel_reads (input_node w) + 1 \<and>
     rules_reads (rule_node w') \<le> rules_reads (rule_node w) + 1"
  using assms(1)
proof (cases rule: process_cases)
  case (no_table inp)
  with assms(2) show ?thesis by simp
next
  case (no_rules df inp rul)
  with assms(2) show ?thesis by simp
next
  case (document df inp ruleset rul pattern kvs secs)
  from document(8) get_data_result(2) [OF document(1)] get_rules_result(2) [OF document(2,3)]
  show ?thesis by simp
qed

lemma get_output_again:
  assumes "get_output py fs w = (Inr doc, w')" and "doc \<noteq> JNone"
  shows "get_output py' fs' w' = (Inr doc, w') \<and>
     excel_reads (input_node w') \<le> excel_reads (input_node w) + 1 \<and>
     rules_reads (rule_node w') \<le> rules_reads (rule_node w) + 1"
proof (cases "output_json w = JNone")
  case True
  with assms have "JsonWriterNode_process py fs w = (Inr doc, w')"
    by (simp add: get_output_def)
  from process_document_stored [OF this assms(2)] assms(2) show ?thesis
    by (simp add: get_output_def)
next
  case False
  with assms show ?thesis
    by (auto simp: get_output_def)
qed

text \<open>
  C6, as the specification states it: a second call of \<^verbatim>\<open>get_data\<close>,
  \<^verbatim>\<open>get_rules\<close> or \<^verbatim>\<open>get_output\<close> returns the cached result without processing
  again, and the file is read at most once for each object however often the getter is called.
  That fails when the first call returned \<^verbatim>\<open>None\<close>: a rules file holding \<^verbatim>\<open>null\<close>
  is read by each of two calls of \<^verbatim>\<open>get_rules\<close>, and a file that is no spreadsheet by
  each of two calls of \<^verbatim>\<open>get_data\<close>.
\<close>

theorem getters_read_again_after_none:
  "fst (get_rules example_files (RuleForWriterNode ''null.json'')) = JNone \<and>
   \<not> rules_reads (snd (get_rules example_files
          (snd (get_rules example_files (RuleForWriterNode ''null.json''))))) \<le> 1 \<and>
   fst (get_data example_files (InputNode ''broken.json'')) = None \<and>
   \<not> excel_reads (snd (get_data example_files
          (snd (get_data example_files (InputNode ''broken.json''))))) \<le> 1"
  by (simp add: eval_defs)

text \<open>
  C6, amended. Once \<^verbatim>\<open>get_data\<close>, \<^verbatim>\<open>get_rules\<close> or \<^verbatim>\<open>get_output\<close> has returned
  a result other than \<^verbatim>\<open>None\<close>, every later call of it, whatever the files then hold,
  returns that result and leaves the object as it is, the counters of file reads included, and
  so does any number of later calls; the first call read each file at most once.
\<close>

theorem getters_keep_a_result_other_than_none:
  "(get_data fs n = (Some df, n') \<longrightarrow>
      get_data fs' n' = (Some df, n') \<and>
      ((\<lambda>s. snd (get_data fs' s)) ^^ k) n' = n' \<and>
      excel_reads n' \<le> excel_reads n + 1) \<and>
   (get_rules fs r = (j, r') \<and> j \<noteq> JNone \<longrightarrow>
      get_rules fs' r' = (j, r') \<and>
      ((\<lambda>s. snd (get_rules fs' s)) ^^ k) r' = r' \<and>
      rules_reads r' \<le> rules_reads r + 1) \<and>
   (get_output py fs w = (Inr doc, w') \<and> doc \<noteq> JNone \<longrightarrow>
      get_output py' fs' w' = (Inr doc, w') \<and>
      ((\<lambda>s. snd (get_output py' fs' s)) ^^ k) w' = w' \<and>
      excel_reads (input_node w') \<le> excel_reads (input_node w) + 1 \<and>
      rules_reads (rule_node w') \<le> rules_reads (rule_node w) + 1)"
proof (intro conjI impI)
  assume a: "get_data fs n = (Some df, n')"
  from get_data_again [OF a] show "get_data fs' n' = (Some df, n')" .
  then show "((\<lambda>s. snd (get_data fs' s)) ^^ k) n' = n'"
    by (intro funpow_fixed) simp
  from get_data_result(2) [OF a] show "excel_reads n' \<le> excel_reads n + 1" .
next
  assume a: "get_rules fs r = (j, r') \<and> j \<noteq> JNone"
  then have 1: "get_rules fs r = (j, r')" and 2: "j \<noteq> JNone"
    by simp_all
  from get_rules_again [OF 1 2] show "get_rules fs' r' = (j, r')" .
  then show "((\<lambda>s. snd (get_rules fs' s)) ^^ k) r' = r'"
    by (intro funpow_fixed) simp
  from get_rules_result(2) [OF 1 2] show "rules_reads r' \<le> rules_reads r + 1" .
next
  assume a: "get_output py fs w = (Inr doc, w') \<and> doc \<noteq> JNone"
  then have 1: "get_output py fs w = (Inr doc, w')" and 2: "doc \<noteq> JNone"
    by simp_all
  from get_output_again [OF 1 2] show "get_output py' fs' w' = (Inr doc, w')"
    by simp
  then show "((\<lambda>s. snd (get_output py' fs' s)) ^^ k) w' = w'"
    by (intro funpow_fixed) simp
  from get_output_again [OF 1 2]
  show "excel_reads (input_node w') \<le> excel_reads (input_node w) + 1"
    by simp
  from get_output_again [OF 1 2]
  show "rules_reads (rule_node w') \<le> rules_reads (rule_node w) + 1"
    by simp
qed

theorem getters_keep_a_result_other_than_none_witness:
  "get_data example_files (InputNode ''people.xlsx'') =
     (Some people_table, snd (get_data example_files (InputNode ''people.xlsx''))) \<and>
   get_data no_files (snd (get_data example_files (InputNode ''people.xlsx''))) =
     (Some people_table, snd (get_data example_files (InputNode ''people.xlsx''))) \<and>
   excel_reads (snd (get_data example_files (InputNode ''people.xlsx''))) = 1 \<and>
   get_rules example_files (RuleForWriterNode ''custom_rules.json'') =
     (custom_rules, snd (get_rules example_files (RuleForWriterNode ''custom_rules.json''))) \<and>
   custom_rules \<noteq> JNone \<and>
   get_rules no_files (snd (get_rules example_files (RuleForWriterNode ''custom_rules.json''))) =
     (custom_rules, snd (get_rules example_files (RuleForWriterNode ''custom_rules.json''))) \<and>
   rules_reads (snd (get_rules example_files (RuleForWriterNode ''custom_rules.json''))) = 1 \<and>
   get_output example_python example_files
       (JsonWriterNode (InputNode ''names.xlsx'') (RuleForWriterNode ''conversion_rules.json'')) =
     (Inr names_document,
      snd (get_output example_python example_files
        (JsonWriterNode (InputNode ''names.xlsx'') (RuleForWriterNode ''conversion_rules.json'')))) \<and>
   names_document \<noteq> JNone \<and>
   get_output example_python no_files
       (snd (get_output example_python example_files
         (JsonWriterNode (InputNode ''names.xlsx'') (RuleForWriterNode ''conversion_rules.json'')))) =
     (Inr names_document,
      snd (get_output example_python example_files
        (JsonWriterNode (InputNode ''names.xlsx'') (RuleForWriterNode ''conversion_rules.json'')))) \<and>
   excel_reads (input_node (snd (get_output example_python example_files
        (JsonWriterNode (InputNode ''names.xlsx'') (RuleForWriterNode ''conversion_rules.json''))))) = 1 \<and>
   rules_reads (rule_node (snd (get_output example_python example_files
        (JsonWriterNode (InputNode ''names.xlsx'') (RuleForWriterNode ''conversion_rules.json''))))) = 1"
  using getters_keep_a_result_other_than_none
    [of example_files "InputNode ''people.xlsx''" people_table
        "snd (get_data example_files (InputNode ''people.xlsx''))"
        no_files 3
        "RuleForWriterNode ''custom_rules.json''" custom_rules
        "snd (get_rules example_files (RuleForWriterNode ''custom_rules.json''))"
        example_python
        "JsonWriterNode (InputNode ''names.xlsx'') (RuleForWriterNode ''conversion_rules.json'')"
        names_document
        "snd (get_output example_python example_files
          (JsonWriterNode (InputNode ''names.xlsx'') (RuleForWriterNode ''conversion_rules.json'')))"
        example_python]
  by (simp add: eval_defs)

end
